theory Spec2Isabelle
  imports Complex_Main
begin

section \<open>Mars Orbiter: the simulation core of \<^verbatim>\<open>Mars_Orbiter_Game.py\<close>\<close>

text \<open>
  The embedding follows the Python source function by function. Python floats are
  modelled as HOL reals (ideal arithmetic, no rounding), Python ints as \<open>int\<close>.
  Mutation of the two sprite objects is explicit state passing; a raised exception is
  the left injection of a sum type. Images, fonts, sound and the window are outside the
  model, except for the few values the loop hands to them (which picture a sprite
  shows, which labels are rendered, which numbers the telemetry boxes print).
\<close>

subsection \<open>Errors and library functions\<close>

datatype error = ZeroDivisionError | ValueError

text \<open>Python's \<^verbatim>\<open>/\<close> on floats raises on a zero divisor.\<close>

definition truediv :: "real \<Rightarrow> real \<Rightarrow> error + real" where
  "truediv a b = (if b = 0 then Inl ZeroDivisionError else Inr (a / b))"

text \<open>\<^verbatim>\<open>math.hypot\<close> and \<^verbatim>\<open>math.pow(d, 2)\<close>.\<close>

definition hypot :: "real \<Rightarrow> real \<Rightarrow> real" where
  "hypot a b = sqrt (a\<^sup>2 + b\<^sup>2)"

definition pow2 :: "real \<Rightarrow> real" where
  "pow2 d = d\<^sup>2"

text \<open>
  \<^verbatim>\<open>math.atan2(y, x)\<close>: the angle of the point \<open>(x, y)\<close>, with \<^verbatim>\<open>atan2(0, 0) = 0\<close>.
  The real angle lies in \<open>(-pi, pi]\<close>. The float function returns that angle rounded,
  and just below the negative \<open>x\<close> axis the rounding is the float \<open>-pi\<close> itself, so
  what carries over to the code is the closed range \<open>[-pi, pi]\<close>; only the closed
  bounds are stated below.
\<close>

definition atan2 :: "real \<Rightarrow> real \<Rightarrow> real" where
  "atan2 b a =
     (if 0 < a then arctan (b / a)
      else if a < 0 \<and> 0 \<le> b then arctan (b / a) + pi
      else if a < 0 \<and> b < 0 then arctan (b / a) - pi
      else if 0 < b then pi / 2
      else if b < 0 then - (pi / 2)
      else 0)"

text \<open>\<^verbatim>\<open>max\<close> and \<^verbatim>\<open>min\<close> of a sequence raise \<^verbatim>\<open>ValueError\<close> on an empty one.\<close>

fun py_max :: "real list \<Rightarrow> error + real" where
  "py_max [] = Inl ValueError"
| "py_max (v # vs) = Inr (fold max vs v)"

fun py_min :: "real list \<Rightarrow> error + real" where
  "py_min [] = Inl ValueError"
| "py_min (v # vs) = Inr (fold min vs v)"

subsection \<open>The two sprites\<close>

datatype sat_image = Image_sat real | Image_crash

datatype planet_image = Image_mars | Image_water

record Satellite =
  image :: sat_image
  x :: real
  y :: real
  dx :: real
  dy :: real
  heading :: real
  fuel :: int
  mass :: int
  distance :: real

record Planet =
  image_copy :: planet_image
  pmass :: int
  px :: real
  py :: real
  angle :: real
  rotate_by :: real

text \<open>
  \<^verbatim>\<open>Satellite.__init__\<close>; the three random draws (\<^verbatim>\<open>randrange(315, 425)\<close>,
  \<^verbatim>\<open>randrange(70, 180)\<close>, \<^verbatim>\<open>choice([-3, 3])\<close>) are parameters.
\<close>

definition Satellite_init :: "int \<Rightarrow> int \<Rightarrow> int \<Rightarrow> Satellite" where
  "Satellite_init x0 y0 dx0 =
     \<lparr>image = Image_sat 0, x = of_int x0, y = of_int y0, dx = of_int dx0, dy = 0,
      heading = 0, fuel = 100, mass = 1, distance = 0\<rparr>"

definition Planet_init :: Planet where
  "Planet_init =
     \<lparr>image_copy = Image_mars, pmass = 2000, px = 400, py = 320,
      angle = 0, rotate_by = 0.01 * 180 / pi\<rparr>"

subsection \<open>Satellite methods\<close>

definition thruster :: "real \<Rightarrow> real \<Rightarrow> Satellite \<Rightarrow> Satellite" where
  "thruster ddx ddy self =
     self\<lparr>dx := dx self + ddx, dy := dy self + ddy, fuel := fuel self - 2\<rparr>"

datatype key = K_RIGHT | K_LEFT | K_UP | K_DOWN | K_ESCAPE | K_SPACE | K_m

definition check_keys :: "(key \<Rightarrow> bool) \<Rightarrow> Satellite \<Rightarrow> Satellite" where
  "check_keys keys self =
     (if keys K_RIGHT then thruster 0.05 0 self
      else if keys K_LEFT then thruster (- 0.05) 0 self
      else if keys K_UP then thruster 0 (- 0.05) self
      else if keys K_DOWN then thruster 0 0.05 self
      else self)"

definition locate :: "Satellite \<Rightarrow> Planet \<Rightarrow> Satellite" where
  "locate self planet =
     (let dist_x = x self - px planet;
          dist_y = y self - py planet;
          planet_dir_radians = atan2 dist_x dist_y;
          h = planet_dir_radians * 180 / pi
      in self\<lparr>heading := h - 90, distance := hypot dist_x dist_y\<rparr>)"

definition Satellite_rotate :: "Satellite \<Rightarrow> Satellite" where
  "Satellite_rotate self = self\<lparr>image := Image_sat (heading self)\<rparr>"

definition path :: "Satellite \<Rightarrow> Satellite" where
  "path self = self\<lparr>x := x self + dx self, y := y self + dy self\<rparr>"

definition Satellite_update :: "(key \<Rightarrow> bool) \<Rightarrow> Satellite \<Rightarrow> Satellite" where
  "Satellite_update keys self =
     (let s = path (Satellite_rotate (check_keys keys self))
      in if dx s = 0 \<and> dy s = 0 then s\<lparr>image := Image_crash\<rparr> else s)"

subsection \<open>Planet methods\<close>

definition Planet_rotate :: "Planet \<Rightarrow> Planet" where
  "Planet_rotate self = self\<lparr>angle := angle self + rotate_by self\<rparr>"

text \<open>
  \<^verbatim>\<open>Planet.gravity\<close> reads the planet and writes the satellite; the model returns both
  objects. Each of its three divisions can raise.
\<close>

definition gravity :: "Planet \<Rightarrow> Satellite \<Rightarrow> error + (Planet \<times> Satellite)" where
  "gravity self satellite =
     (let G = 1;
          dist_x = px self - x satellite;
          dist_y = py self - y satellite;
          d = hypot dist_x dist_y
      in case truediv dist_x d of
           Inl e \<Rightarrow> Inl e
         | Inr ux \<Rightarrow>
             (case truediv dist_y d of
                Inl e \<Rightarrow> Inl e
              | Inr uy \<Rightarrow>
                  (case truediv (G * of_int (mass satellite * pmass self)) (pow2 d) of
                     Inl e \<Rightarrow> Inl e
                   | Inr force \<Rightarrow>
                       Inr (self, satellite\<lparr>dx := dx satellite + ux * force,
                                           dy := dy satellite + uy * force\<rparr>))))"

definition Planet_update :: "Planet \<Rightarrow> Planet" where
  "Planet_update self = Planet_rotate self"

subsection \<open>Module functions\<close>

definition calc_eccentricity :: "real list \<Rightarrow> error + real" where
  "calc_eccentricity dist_list =
     (case py_max dist_list of
        Inl e \<Rightarrow> Inl e
      | Inr apoapsis \<Rightarrow>
          (case py_min dist_list of
             Inl e \<Rightarrow> Inl e
           | Inr periapsis \<Rightarrow> truediv (apoapsis - periapsis) (apoapsis + periapsis)))"

definition mapping_on :: "Planet \<Rightarrow> Planet" where
  "mapping_on planet = planet\<lparr>image_copy := Image_water\<rparr>"

definition mapping_off :: "Planet \<Rightarrow> Planet" where
  "mapping_off planet = planet\<lparr>image_copy := Image_mars\<rparr>"

subsection \<open>The game loop of \<^verbatim>\<open>main\<close>\<close>

datatype event = QUIT | KEYDOWN key | KEYUP key | OTHER

record game =
  sat :: Satellite
  planet :: Planet
  dist_list :: "real list"
  eccentricity :: real
  tick_count :: int
  mapping_enabled :: bool
  running :: bool
  labels :: "string list"
  telemetry :: "real \<times> real \<times> real \<times> int \<times> real"

definition game_init :: "int \<Rightarrow> int \<Rightarrow> int \<Rightarrow> game" where
  "game_init x0 y0 dx0 =
     \<lparr>sat = Satellite_init x0 y0 dx0, planet = Planet_init, dist_list = [],
      eccentricity = 1, tick_count = 0, mapping_enabled = False, running = True,
      labels = [], telemetry = (0, 0, 0, 0, 0)\<rparr>"

text \<open>One event of the \<^verbatim>\<open>for event in pg.event.get()\<close> loop.\<close>

definition handle_event :: "bool \<Rightarrow> event \<Rightarrow> bool \<times> Planet \<Rightarrow> bool \<times> Planet" where
  "handle_event enabled ev st =
     (case st of (run, p) \<Rightarrow>
        if ev = QUIT then (False, p)
        else if ev = KEYDOWN K_ESCAPE then (run, p)
        else if ev = KEYDOWN K_SPACE then (run, p)
        else (case ev of
                KEYUP k \<Rightarrow> (run, mapping_off p)
              | _ \<Rightarrow>
                  if enabled
                  then (if ev = KEYDOWN K_m then (run, mapping_on p) else (run, p))
                  else (run, p)))"

text \<open>The eccentricity section: every 150th tick the window is consumed and cleared.\<close>

definition eccentricty_calc_interval :: int where
  "eccentricty_calc_interval = 5"

definition fps :: int where
  "fps = 30"

definition orbit_stats :: "int \<Rightarrow> real \<Rightarrow> real list \<Rightarrow> error + (real \<times> real list)" where
  "orbit_stats tc ecc dl =
     (if tc mod (eccentricty_calc_interval * fps) = 0
      then (case calc_eccentricity dl of Inl e \<Rightarrow> Inl e | Inr ecc' \<Rightarrow> Inr (ecc', []))
      else Inr (ecc, dl))"

text \<open>The fail conditions: the label rendered, and the satellite as the branch leaves it.\<close>

definition fail_conditions :: "Satellite \<Rightarrow> string list \<times> Satellite" where
  "fail_conditions s =
     (if fuel s \<le> 0 then ([''Fuel depleted''], s\<lparr>fuel := 0, dx := 2\<rparr>)
      else if distance s \<le> 68 then ([''Atmospheric entry''], s\<lparr>dx := 0, dy := 0\<rparr>)
      else ([], s))"

definition mapping_check :: "real \<Rightarrow> Satellite \<Rightarrow> string list \<times> bool" where
  "mapping_check ecc s =
     (if ecc < 0.05 \<and> 69 \<le> distance s \<and> distance s \<le> 120
      then ([''Press & hold m to map moisture''], True)
      else ([], False))"

text \<open>
  One iteration of the \<^verbatim>\<open>while running\<close> loop, in the order of the source: the
  sample is appended, the events are handled, the satellite is located and attracted,
  the eccentricity is recomputed, the fail conditions and the mapping condition are
  evaluated, both sprites are updated, the telemetry is printed.
\<close>

definition tick :: "event list \<times> (key \<Rightarrow> bool) \<Rightarrow> game \<Rightarrow> error + game" where
  "tick inp g =
     (case inp of (events, keys) \<Rightarrow>
        let tc = tick_count g + 1;
            dl = dist_list g @ [distance (sat g)];
            (run, planet1) = fold (handle_event (mapping_enabled g)) events
                                  (running g, planet g);
            sat1 = locate (sat g) planet1
        in case gravity planet1 sat1 of
             Inl e \<Rightarrow> Inl e
           | Inr (planet2, sat2) \<Rightarrow>
               (case orbit_stats tc (eccentricity g) dl of
                  Inl e \<Rightarrow> Inl e
                | Inr (ecc, dl') \<Rightarrow>
                    let (lab1, sat3) = fail_conditions sat2;
                        (lab2, enabled) = mapping_check ecc sat3;
                        planet3 = Planet_update planet2;
                        sat4 = Satellite_update keys sat3
                    in Inr \<lparr>sat = sat4, planet = planet3, dist_list = dl',
                            eccentricity = ecc, tick_count = tc,
                            mapping_enabled = enabled, running = run,
                            labels = lab1 @ lab2,
                            telemetry = (dx sat4, dy sat4, distance sat4, fuel sat4, ecc)\<rparr>))"

text \<open>The loop over the inputs of successive frames; it stops once \<open>running\<close> is false.\<close>

fun main_loop :: "(event list \<times> (key \<Rightarrow> bool)) list \<Rightarrow> game \<Rightarrow> error + game" where
  "main_loop [] g = Inr g"
| "main_loop (inp # inps) g =
     (if running g
      then (case tick inp g of Inl e \<Rightarrow> Inl e | Inr g' \<Rightarrow> main_loop inps g')
      else Inr g)"

section \<open>Auxiliary facts\<close>

subsection \<open>Norm and gravity\<close>

lemma hypot_0_left: "hypot 0 b = \<bar>b\<bar>" by (simp add: hypot_def)
lemma hypot_0_right: "hypot a 0 = \<bar>a\<bar>" by (simp add: hypot_def)
lemma hypot_nonneg: "0 \<le> hypot a b" by (simp add: hypot_def)
lemma hypot_eq_0_iff: "hypot a b = 0 \<longleftrightarrow> a = 0 \<and> b = 0"
  by (simp add: hypot_def sum_power2_eq_zero_iff)

lemma hypot_scale: "hypot (a * c) (b * c) = hypot a b * \<bar>c\<bar>"
proof -
  have "(a * c)\<^sup>2 + (b * c)\<^sup>2 = (a\<^sup>2 + b\<^sup>2) * c\<^sup>2"
    by (simp add: power_mult_distrib distrib_right)
  then show ?thesis
    by (simp add: hypot_def real_sqrt_mult)
qed

lemma hypot_unit:
  assumes "hypot a b \<noteq> 0"
  shows "hypot (a / hypot a b) (b / hypot a b) = 1"
proof -
  have "hypot (a * inverse (hypot a b)) (b * inverse (hypot a b)) = hypot a b * \<bar>inverse (hypot a b)\<bar>"
    by (rule hypot_scale)
  also have "\<dots> = 1" using assms hypot_nonneg [of a b] by simp
  finally show ?thesis by (simp add: divide_inverse)
qed

lemma gravity_planet: "gravity p s = Inr (p', s') \<Longrightarrow> p' = p"
  by (auto simp: gravity_def Let_def split: sum.splits)

lemma gravity_ok:
  assumes "hypot (px p - x s) (py p - y s) \<noteq> 0"
  shows "gravity p s = Inr (p, s\<lparr>
      dx := dx s + (px p - x s) / hypot (px p - x s) (py p - y s)
                   * (1 * of_int (mass s * pmass p) / (hypot (px p - x s) (py p - y s))\<^sup>2),
      dy := dy s + (py p - y s) / hypot (px p - x s) (py p - y s)
                   * (1 * of_int (mass s * pmass p) / (hypot (px p - x s) (py p - y s))\<^sup>2)\<rparr>)"
  using assms by (simp add: gravity_def Let_def truediv_def pow2_def)

lemma gravity_fail:
  assumes "hypot (px p - x s) (py p - y s) = 0"
  shows "gravity p s = Inl ZeroDivisionError"
  using assms by (simp add: gravity_def Let_def truediv_def pow2_def)

lemma gravity_force_magnitude:
  assumes "hypot (px p - x s) (py p - y s) \<noteq> 0" and "gravity p s = Inr (p', s')"
  shows "hypot (dx s' - dx s) (dy s' - dy s)
         = \<bar>of_int (mass s * pmass p)\<bar> / (hypot (px p - x s) (py p - y s))\<^sup>2"
proof -
  let ?d = "hypot (px p - x s) (py p - y s)"
  let ?F = "1 * of_int (mass s * pmass p) / ?d\<^sup>2"
  have s': "s' = s\<lparr>dx := dx s + (px p - x s) / ?d * ?F, dy := dy s + (py p - y s) / ?d * ?F\<rparr>"
    using assms(2) unfolding gravity_ok [OF assms(1)] by auto
  have "hypot (dx s' - dx s) (dy s' - dy s) = hypot ((px p - x s) / ?d * ?F) ((py p - y s) / ?d * ?F)"
    by (simp add: s')
  also have "\<dots> = hypot ((px p - x s) / ?d) ((py p - y s) / ?d) * \<bar>?F\<bar>"
    by (rule hypot_scale)
  also have "\<dots> = \<bar>?F\<bar>"
    using hypot_unit [OF assms(1)] by simp
  finally show ?thesis by simp
qed

subsection \<open>The loop body\<close>

lemma handle_event_position:
  "px (snd (handle_event en ev st)) = px (snd st) \<and>
   py (snd (handle_event en ev st)) = py (snd st) \<and>
   pmass (snd (handle_event en ev st)) = pmass (snd st)"
  by (cases st) (simp add: handle_event_def mapping_on_def mapping_off_def split: event.splits)

lemma fold_handle_event_position:
  "px (snd (fold (handle_event en) evs st)) = px (snd st) \<and>
   py (snd (fold (handle_event en) evs st)) = py (snd st) \<and>
   pmass (snd (fold (handle_event en) evs st)) = pmass (snd st)"
  by (induction evs arbitrary: st) (simp_all add: handle_event_position)

lemma tick_cases:
  assumes "tick (events, keys) g = Inr g'"
  obtains run p1 sat2 ecc dl' where
    "fold (handle_event (mapping_enabled g)) events (running g, planet g) = (run, p1)"
    "gravity p1 (locate (sat g) p1) = Inr (p1, sat2)"
    "orbit_stats (tick_count g + 1) (eccentricity g) (dist_list g @ [distance (sat g)]) = Inr (ecc, dl')"
    "g' = \<lparr>sat = Satellite_update keys (snd (fail_conditions sat2)),
           planet = Planet_update p1, dist_list = dl',
           eccentricity = ecc, tick_count = tick_count g + 1,
           mapping_enabled = snd (mapping_check ecc (snd (fail_conditions sat2))),
           running = run,
           labels = fst (fail_conditions sat2) @ fst (mapping_check ecc (snd (fail_conditions sat2))),
           telemetry = (dx (Satellite_update keys (snd (fail_conditions sat2))),
                        dy (Satellite_update keys (snd (fail_conditions sat2))),
                        distance (Satellite_update keys (snd (fail_conditions sat2))),
                        fuel (Satellite_update keys (snd (fail_conditions sat2))), ecc)\<rparr>"
  using assms
  by (auto simp: tick_def Let_def split: sum.splits prod.splits dest: gravity_planet)

lemma gravity_keeps:
  assumes "gravity p s = Inr (p', s')"
  shows "fuel s' = fuel s" and "distance s' = distance s" and "heading s' = heading s"
    and "x s' = x s" and "y s' = y s"
  using assms by (auto simp: gravity_def Let_def split: sum.splits)

lemma fail_conditions_keeps:
  "distance (snd (fail_conditions s)) = distance s"
  "x (snd (fail_conditions s)) = x s"
  "y (snd (fail_conditions s)) = y s"
  by (simp_all add: fail_conditions_def)

lemma Satellite_update_keeps:
  "distance (Satellite_update keys s) = distance s"
  "heading (Satellite_update keys s) = heading s"
  by (simp_all add: Satellite_update_def Let_def path_def Satellite_rotate_def check_keys_def thruster_def)

lemma Satellite_update_velocity:
  "dx (Satellite_update keys s) =
     dx s + (if keys K_RIGHT then 0.05 else if keys K_LEFT then - 0.05 else 0)"
  "dy (Satellite_update keys s) =
     dy s + (if keys K_RIGHT \<or> keys K_LEFT then 0
             else if keys K_UP then - 0.05 else if keys K_DOWN then 0.05 else 0)"
  "fuel (Satellite_update keys s) =
     fuel s - (if keys K_RIGHT \<or> keys K_LEFT \<or> keys K_UP \<or> keys K_DOWN then 2 else 0)"
  by (simp_all add: Satellite_update_def Let_def path_def Satellite_rotate_def check_keys_def thruster_def)

lemma locate_keeps:
  "fuel (locate s p) = fuel s" "x (locate s p) = x s" "y (locate s p) = y s"
  "dx (locate s p) = dx s" "dy (locate s p) = dy s"
  by (simp_all add: locate_def Let_def)

lemma tick_distance:
  assumes "tick (events, keys) g = Inr g'"
  shows "distance (sat g') = hypot (x (sat g) - px (planet g)) (y (sat g) - py (planet g))"
proof -
  from assms obtain run p1 sat2 ecc dl' where
    f: "fold (handle_event (mapping_enabled g)) events (running g, planet g) = (run, p1)"
    and gr: "gravity p1 (locate (sat g) p1) = Inr (p1, sat2)"
    and g': "sat g' = Satellite_update keys (snd (fail_conditions sat2))"
    by (rule tick_cases) simp
  have p1: "px p1 = px (planet g)" "py p1 = py (planet g)"
    using fold_handle_event_position [of "mapping_enabled g" events "(running g, planet g)"]
    by (simp_all add: f)
  have "distance (sat g') = distance (locate (sat g) p1)"
    by (simp add: g' Satellite_update_keeps fail_conditions_keeps gravity_keeps(2) [OF gr])
  then show ?thesis
    by (simp add: locate_def Let_def p1)
qed

lemma tick_total:
  assumes "hypot (x (sat g) - px (planet g)) (y (sat g) - py (planet g)) \<noteq> 0"
    and "(tick_count g + 1) mod 150 \<noteq> 0"
  shows "\<exists>g'. tick (events, keys) g = Inr g'"
proof -
  obtain run p1 where
    f: "fold (handle_event (mapping_enabled g)) events (running g, planet g) = (run, p1)"
    by (cases "fold (handle_event (mapping_enabled g)) events (running g, planet g)")
  have p1: "px p1 = px (planet g)" "py p1 = py (planet g)"
    using fold_handle_event_position [of "mapping_enabled g" events "(running g, planet g)"]
    by (simp_all add: f)
  have "hypot (px p1 - x (locate (sat g) p1)) (py p1 - y (locate (sat g) p1)) \<noteq> 0"
    using assms(1) by (auto simp: locate_keeps p1 hypot_eq_0_iff)
  then obtain s2 where gr: "gravity p1 (locate (sat g) p1) = Inr (p1, s2)"
    using gravity_ok by blast
  show ?thesis
    using assms(2)
    by (simp add: tick_def Let_def f gr orbit_stats_def fps_def eccentricty_calc_interval_def
        split: prod.splits)
qed

lemma fail_conditions_fuel:
  "fuel s \<le> 0 \<Longrightarrow> fail_conditions s = ([''Fuel depleted''], s\<lparr>fuel := 0, dx := 2\<rparr>)"
  by (simp add: fail_conditions_def)

lemma tick_fail_check:
  assumes "tick (events, keys) g = Inr g'"
  obtains s2 where "fuel s2 = fuel (sat g)" and "distance s2 = distance (sat g')"
    and "sat g' = Satellite_update keys (snd (fail_conditions s2))"
    and "labels g' = fst (fail_conditions s2) @ fst (mapping_check (eccentricity g') (snd (fail_conditions s2)))"
    and "mapping_enabled g' = snd (mapping_check (eccentricity g') (snd (fail_conditions s2)))"
proof -
  from assms obtain run p1 sat2 ecc dl' where
    gr: "gravity p1 (locate (sat g) p1) = Inr (p1, sat2)"
    and g': "g' = \<lparr>sat = Satellite_update keys (snd (fail_conditions sat2)),
           planet = Planet_update p1, dist_list = dl',
           eccentricity = ecc, tick_count = tick_count g + 1,
           mapping_enabled = snd (mapping_check ecc (snd (fail_conditions sat2))),
           running = run,
           labels = fst (fail_conditions sat2) @ fst (mapping_check ecc (snd (fail_conditions sat2))),
           telemetry = (dx (Satellite_update keys (snd (fail_conditions sat2))),
                        dy (Satellite_update keys (snd (fail_conditions sat2))),
                        distance (Satellite_update keys (snd (fail_conditions sat2))),
                        fuel (Satellite_update keys (snd (fail_conditions sat2))), ecc)\<rparr>"
    by (rule tick_cases)
  show ?thesis
  proof (rule that [of sat2])
    show "fuel sat2 = fuel (sat g)"
      by (simp add: gravity_keeps(1) [OF gr] locate_keeps)
    show "distance sat2 = distance (sat g')"
      by (simp add: g' Satellite_update_keeps fail_conditions_keeps)
  qed (simp_all add: g')
qed

lemma thruster_pow_fuel: "fuel ((thruster a b ^^ n) s) = fuel s - 2 * int n"
  by (induction n) (simp_all add: thruster_def)

lemma tick_window:
  assumes "tick (events, keys) g = Inr g'"
  shows "orbit_stats (tick_count g + 1) (eccentricity g) (dist_list g @ [distance (sat g)])
         = Inr (eccentricity g', dist_list g')"
  using assms by (rule tick_cases) simp

lemma locate_same_position:
  assumes "px p1 = px p" and "py p1 = py p"
  shows "locate s p1 = locate s p"
  using assms by (simp add: locate_def)

lemma gravity_same_position:
  assumes "px p1 = px p" and "py p1 = py p" and "pmass p1 = pmass p"
    and "gravity p1 s = Inr (p1, s')"
  shows "gravity p s = Inr (p, s')"
  using assms by (auto simp: gravity_def Let_def split: sum.splits)

lemma tick_gravity:
  assumes "tick (events, keys) g = Inr g'"
  obtains s2 where "gravity (planet g) (locate (sat g) (planet g)) = Inr (planet g, s2)"
    and "sat g' = Satellite_update keys (snd (fail_conditions s2))"
    and "labels g' = fst (fail_conditions s2)
                     @ fst (mapping_check (eccentricity g') (snd (fail_conditions s2)))"
proof -
  from assms obtain run p1 sat2 ecc dl' where
    f: "fold (handle_event (mapping_enabled g)) events (running g, planet g) = (run, p1)"
    and gr: "gravity p1 (locate (sat g) p1) = Inr (p1, sat2)"
    and g': "g' = \<lparr>sat = Satellite_update keys (snd (fail_conditions sat2)),
           planet = Planet_update p1, dist_list = dl',
           eccentricity = ecc, tick_count = tick_count g + 1,
           mapping_enabled = snd (mapping_check ecc (snd (fail_conditions sat2))),
           running = run,
           labels = fst (fail_conditions sat2) @ fst (mapping_check ecc (snd (fail_conditions sat2))),
           telemetry = (dx (Satellite_update keys (snd (fail_conditions sat2))),
                        dy (Satellite_update keys (snd (fail_conditions sat2))),
                        distance (Satellite_update keys (snd (fail_conditions sat2))),
                        fuel (Satellite_update keys (snd (fail_conditions sat2))), ecc)\<rparr>"
    by (rule tick_cases)
  have p1: "px p1 = px (planet g)" "py p1 = py (planet g)" "pmass p1 = pmass (planet g)"
    using fold_handle_event_position [of "mapping_enabled g" events "(running g, planet g)"]
    by (simp_all add: f)
  have "gravity (planet g) (locate (sat g) (planet g)) = Inr (planet g, sat2)"
    using gravity_same_position [OF p1 gr] by (simp add: locate_same_position [OF p1(1,2)])
  then show ?thesis
    by (rule that) (simp_all add: g')
qed

lemma tick_appends:
  assumes "tick (events, keys) g = Inr g'"
  shows "(if (tick_count g + 1) mod 150 = 0
          then dist_list g' = []
               \<and> calc_eccentricity (dist_list g @ [distance (sat g)]) = Inr (eccentricity g')
          else dist_list g' = dist_list g @ [distance (sat g)]
               \<and> eccentricity g' = eccentricity g)"
  using tick_window [OF assms]
  by (auto simp: orbit_stats_def fps_def eccentricty_calc_interval_def split: if_splits sum.splits)

lemma tick_stores_locate:
  assumes "tick (events, keys) g = Inr g'"
  shows "distance (sat g') = distance (locate (sat g) (planet g))"
  using tick_distance [OF assms] by (simp add: locate_def Let_def)

subsection \<open>Library functions\<close>

lemma fold_max_Max: "fold max vs (v::real) = Max (set (v # vs))"
  by (rule Max.set_eq_fold [symmetric])

lemma fold_min_Min: "fold min vs (v::real) = Min (set (v # vs))"
  by (rule Min.set_eq_fold [symmetric])

lemma py_max_Max: "vs \<noteq> [] \<Longrightarrow> py_max vs = Inr (Max (set vs))"
  by (cases vs) (simp_all only: py_max.simps fold_max_Max, simp)

lemma py_min_Min: "vs \<noteq> [] \<Longrightarrow> py_min vs = Inr (Min (set vs))"
  by (cases vs) (simp_all only: py_min.simps fold_min_Min, simp)

lemma atan2_bounds: "- pi \<le> atan2 b a \<and> atan2 b a \<le> pi"
proof -
  have lb: "- (pi / 2) < arctan (b / a)" and ub: "arctan (b / a) < pi / 2"
    by (rule arctan_lbound, rule arctan_ubound)
  have pos: "0 < pi" by (rule pi_gt_zero)
  consider "0 < a" | "a < 0" "0 \<le> b" | "a < 0" "b < 0" | "a = 0" "0 < b" | "a = 0" "b < 0"
    | "a = 0" "b = 0"
    by linarith
  then show ?thesis
  proof cases
    case 1
    then have "atan2 b a = arctan (b / a)" by (simp add: atan2_def)
    with lb ub pos show ?thesis by linarith
  next
    case 2
    then have "b / a \<le> 0" by (simp add: divide_nonneg_neg)
    then have "arctan (b / a) \<le> 0" by (simp add: arctan_le_zero_iff)
    moreover from 2 have "atan2 b a = arctan (b / a) + pi" by (simp add: atan2_def)
    ultimately show ?thesis using lb pos by linarith
  next
    case 3
    then have "0 < b / a" by (simp add: divide_neg_neg)
    then have "0 < arctan (b / a)" by (simp add: zero_less_arctan_iff)
    moreover from 3 have "atan2 b a = arctan (b / a) - pi" by (simp add: atan2_def)
    ultimately show ?thesis using ub pos by linarith
  next
    case 4
    then have "atan2 b a = pi / 2" by (simp add: atan2_def)
    with pos show ?thesis by linarith
  next
    case 5
    then have "atan2 b a = - (pi / 2)" by (simp add: atan2_def)
    with pos show ?thesis by linarith
  next
    case 6
    then have "atan2 b a = 0" by (simp add: atan2_def)
    with pos show ?thesis by linarith
  qed
qed

text \<open>The definitions unfolded when a tick is evaluated on a concrete state.\<close>

lemmas eval_defs = tick_def game_init_def Satellite_init_def Planet_init_def Let_def locate_def
  gravity_def hypot_0_left hypot_0_right atan2_def truediv_def pow2_def orbit_stats_def fps_def
  eccentricty_calc_interval_def fail_conditions_def mapping_check_def Planet_update_def
  Planet_rotate_def Satellite_update_def check_keys_def path_def Satellite_rotate_def thruster_def

section \<open>The claims\<close>

subsection \<open>C1: priority of the two fail conditions\<close>

text \<open>
  C1. Take a tick in which the fuel is at or below 0 and the distance computed in the
  tick is at most 68, and let \<open>s2\<close> be the satellite that \<open>gravity\<close> returns in that
  tick, which is the one handed to the fail check. Then \<open>s2\<close> satisfies both fail
  conditions, the check takes the fuel branch only (label \<^verbatim>\<open>Fuel depleted\<close>, fuel set
  to 0, \<open>dx\<close> set to 2, nothing else changed), the satellite at the end of the tick is
  \<open>Satellite_update\<close> of exactly that satellite, so its \<open>dy\<close> is the \<open>dy\<close> after gravity
  plus the thrust of a held up or down key and is not zeroed, and \<^verbatim>\<open>Fuel depleted\<close> is
  the only label of the frame: \<^verbatim>\<open>Atmospheric entry\<close> is not rendered.
\<close>

theorem fuel_check_precedes_atmosphere:
  assumes "tick (events, keys) g = Inr g'"
    and "fuel (sat g) \<le> 0"
    and "distance (sat g') \<le> 68"
  shows "\<exists>s2. gravity (planet g) (locate (sat g) (planet g)) = Inr (planet g, s2)
           \<and> fuel s2 \<le> 0 \<and> distance s2 \<le> 68
           \<and> fail_conditions s2 = ([''Fuel depleted''], s2\<lparr>fuel := 0, dx := 2\<rparr>)
           \<and> sat g' = Satellite_update keys (s2\<lparr>fuel := 0, dx := 2\<rparr>)
           \<and> dy (sat g') = dy s2
                + (if keys K_RIGHT \<or> keys K_LEFT then 0
                   else if keys K_UP then - 0.05 else if keys K_DOWN then 0.05 else 0)
           \<and> labels g' = [''Fuel depleted'']"
proof -
  from assms(1) obtain s2 where
    gr: "gravity (planet g) (locate (sat g) (planet g)) = Inr (planet g, s2)"
    and s: "sat g' = Satellite_update keys (snd (fail_conditions s2))"
    and l: "labels g' = fst (fail_conditions s2)
                        @ fst (mapping_check (eccentricity g') (snd (fail_conditions s2)))"
    by (rule tick_gravity)
  have fu: "fuel s2 \<le> 0"
    using assms(2) by (simp add: gravity_keeps(1) [OF gr] locate_keeps)
  have di: "distance s2 \<le> 68"
    using assms(3) by (simp add: s Satellite_update_keeps fail_conditions_keeps)
  have f: "fail_conditions s2 = ([''Fuel depleted''], s2\<lparr>fuel := 0, dx := 2\<rparr>)"
    using fu by (rule fail_conditions_fuel)
  have s': "sat g' = Satellite_update keys (s2\<lparr>fuel := 0, dx := 2\<rparr>)"
    by (simp add: s f)
  have v: "dy (sat g') = dy s2
                + (if keys K_RIGHT \<or> keys K_LEFT then 0
                   else if keys K_UP then - 0.05 else if keys K_DOWN then 0.05 else 0)"
    by (simp add: s' Satellite_update_velocity(2))
  have l': "labels g' = [''Fuel depleted'']"
    using di by (simp add: l f mapping_check_def)
  from gr fu di f s' v l' show ?thesis by blast
qed

theorem fuel_check_precedes_atmosphere_witness:
  "\<not> isl (tick ([], \<lambda>k. False) ((game_init 400 270 3)\<lparr>sat := (Satellite_init 400 270 3)\<lparr>fuel := 0\<rparr>\<rparr>))
   \<and> fuel (sat ((game_init 400 270 3)\<lparr>sat := (Satellite_init 400 270 3)\<lparr>fuel := 0\<rparr>\<rparr>)) \<le> 0
   \<and> distance (sat (projr (tick ([], \<lambda>k. False)
         ((game_init 400 270 3)\<lparr>sat := (Satellite_init 400 270 3)\<lparr>fuel := 0\<rparr>\<rparr>)))) = 50
   \<and> labels (projr (tick ([], \<lambda>k. False)
         ((game_init 400 270 3)\<lparr>sat := (Satellite_init 400 270 3)\<lparr>fuel := 0\<rparr>\<rparr>))) = [''Fuel depleted'']
   \<and> dx (sat (projr (tick ([], \<lambda>k. False)
         ((game_init 400 270 3)\<lparr>sat := (Satellite_init 400 270 3)\<lparr>fuel := 0\<rparr>\<rparr>)))) = 2
   \<and> dy (sat (projr (tick ([], \<lambda>k. False)
         ((game_init 400 270 3)\<lparr>sat := (Satellite_init 400 270 3)\<lparr>fuel := 0\<rparr>\<rparr>)))) = 0.8"
proof -
  let ?g = "(game_init 400 270 3)\<lparr>sat := (Satellite_init 400 270 3)\<lparr>fuel := 0\<rparr>\<rparr>"
  obtain g' where e: "tick ([], \<lambda>k. False) ?g = Inr g'"
    by (simp add: eval_defs)
  have f: "fuel (sat ?g) \<le> 0" by (simp add: game_init_def Satellite_init_def)
  have d: "distance (sat g') = 50"
    using tick_distance [OF e] by (simp add: eval_defs)
  then have d68: "distance (sat g') \<le> 68" by simp
  have gr: "gravity (planet ?g) (locate (sat ?g) (planet ?g))
            = Inr (planet ?g, (locate (sat ?g) (planet ?g))\<lparr>dx := 3, dy := 0.8\<rparr>)"
    by (simp add: eval_defs)
  from fuel_check_precedes_atmosphere [OF e f d68]
  have "labels g' = [''Fuel depleted''] \<and> dx (sat g') = 2 \<and> dy (sat g') = 0.8"
    unfolding gr by (auto simp: Satellite_update_velocity)
  with f d show ?thesis
    by (simp add: e)
qed

subsection \<open>C2: fuel under repeated thrust\<close>

text \<open>
  C2 says that a 51st thruster application leaves the fuel at 0 and that the fuel is
  never negative where it can be observed. \<open>thruster\<close> subtracts 2 unconditionally:
  from the initial fuel of 100, fifty applications give 0 and the 51st gives \<open>-2\<close>.
  In the loop, a tick that starts with fuel 0 and the right arrow held resets the fuel
  to 0 in the fail check, fires the thruster in \<open>Satellite_update\<close> afterwards, and
  prints the fuel \<open>-2\<close> in the telemetry.
\<close>

theorem thruster_fuel_counterexample:
  "fuel ((thruster 0.05 0 ^^ 50) (Satellite_init 400 70 3)) = 0
   \<and> fuel ((thruster 0.05 0 ^^ 51) (Satellite_init 400 70 3)) = - 2
   \<and> fuel (sat ((game_init 400 70 3)\<lparr>sat := (Satellite_init 400 70 3)\<lparr>fuel := 0\<rparr>\<rparr>)) = 0
   \<and> \<not> isl (tick ([], \<lambda>k. k = K_RIGHT)
              ((game_init 400 70 3)\<lparr>sat := (Satellite_init 400 70 3)\<lparr>fuel := 0\<rparr>\<rparr>))
   \<and> snd (snd (snd (telemetry (projr (tick ([], \<lambda>k. k = K_RIGHT)
              ((game_init 400 70 3)\<lparr>sat := (Satellite_init 400 70 3)\<lparr>fuel := 0\<rparr>\<rparr>))))))
       = (- 2, 1)"
proof -
  have "fuel ((thruster 0.05 0 ^^ 50) (Satellite_init 400 70 3)) = 0"
    and "fuel ((thruster 0.05 0 ^^ 51) (Satellite_init 400 70 3)) = - 2"
    by (simp_all add: thruster_pow_fuel Satellite_init_def)
  moreover have "fuel (sat ((game_init 400 70 3)\<lparr>sat := (Satellite_init 400 70 3)\<lparr>fuel := 0\<rparr>\<rparr>)) = 0"
    by (simp add: Satellite_init_def)
  moreover have "\<not> isl (tick ([], \<lambda>k. k = K_RIGHT)
              ((game_init 400 70 3)\<lparr>sat := (Satellite_init 400 70 3)\<lparr>fuel := 0\<rparr>\<rparr>))"
    by (simp add: eval_defs)
  moreover have "snd (snd (snd (telemetry (projr (tick ([], \<lambda>k. k = K_RIGHT)
              ((game_init 400 70 3)\<lparr>sat := (Satellite_init 400 70 3)\<lparr>fuel := 0\<rparr>\<rparr>))))))
       = (- 2, 1)"
    by (simp add: eval_defs)
  ultimately show ?thesis by blast
qed

text \<open>
  C2, as the code has it: \<open>thruster\<close> has no clamp, so from fuel 100 the fuel after
  \<open>n\<close> applications is \<open>100 - 2n\<close>: exactly 0 after 50 and \<open>-2\<close> after 51. The clamp is
  the fail check of the loop, which sets the fuel to 0 whenever it finds it at or below 0
  (here: after 50 or more applications).
\<close>

theorem thruster_fuel_unclamped:
  assumes "fuel s = 100"
  shows "fuel ((thruster ddx ddy ^^ n) s) = 100 - 2 * int n
         \<and> fuel ((thruster ddx ddy ^^ 50) s) = 0
         \<and> fuel ((thruster ddx ddy ^^ 51) s) = - 2
         \<and> fuel (snd (fail_conditions ((thruster ddx ddy ^^ (50 + n)) s))) = 0"
  using assms by (simp add: thruster_pow_fuel fail_conditions_def)

theorem thruster_fuel_unclamped_witness:
  "fuel (Satellite_init 400 70 3) = 100
   \<and> fuel ((thruster 0.05 0 ^^ 7) (Satellite_init 400 70 3)) = 86
   \<and> fuel ((thruster 0.05 0 ^^ 50) (Satellite_init 400 70 3)) = 0
   \<and> fuel ((thruster 0.05 0 ^^ 51) (Satellite_init 400 70 3)) = - 2
   \<and> fuel (snd (fail_conditions ((thruster 0.05 0 ^^ 57) (Satellite_init 400 70 3)))) = 0"
proof -
  have h: "fuel (Satellite_init 400 70 3) = 100" by (simp add: Satellite_init_def)
  from thruster_fuel_unclamped [where s = "Satellite_init 400 70 3" and ddx = "0.05" and ddy = 0 and n = 7, OF h] h show ?thesis by simp
qed

subsection \<open>C3: thrust when the fuel is exhausted\<close>

text \<open>
  C3 says that a tick that begins with \<open>fuel \<le> 0\<close> takes no thrust from held keys.
  \<open>check_keys\<close> does not look at the fuel: from a state with fuel 0, the tick with the
  right arrow held ends with \<open>dx = 2.05\<close>, the tick with no key held ends with \<open>dx = 2\<close>.
\<close>

theorem thrust_gate_counterexample:
  "fuel (sat ((game_init 400 70 3)\<lparr>sat := (Satellite_init 400 70 3)\<lparr>fuel := 0\<rparr>\<rparr>)) \<le> 0
   \<and> \<not> isl (tick ([], \<lambda>k. k = K_RIGHT)
              ((game_init 400 70 3)\<lparr>sat := (Satellite_init 400 70 3)\<lparr>fuel := 0\<rparr>\<rparr>))
   \<and> dx (sat (projr (tick ([], \<lambda>k. k = K_RIGHT)
              ((game_init 400 70 3)\<lparr>sat := (Satellite_init 400 70 3)\<lparr>fuel := 0\<rparr>\<rparr>)))) = 2.05
   \<and> dx (sat (projr (tick ([], \<lambda>k. False)
              ((game_init 400 70 3)\<lparr>sat := (Satellite_init 400 70 3)\<lparr>fuel := 0\<rparr>\<rparr>)))) = 2"
  by (simp add: eval_defs)

text \<open>
  C3, as the code has it: in a tick that begins with \<open>fuel \<le> 0\<close> the fail check forces
  \<open>dx\<close> to 2 and the fuel to 0, and the key handling that follows fires the thruster for
  a held arrow key as in any other tick. Compared with the same tick with no key held,
  the velocity at the end of the tick differs by exactly the thrust of the held key
  (0.05 on one axis, priority right, left, up, down).
\<close>

theorem thrust_not_fuel_gated:
  assumes "tick (events, keys) g = Inr g'"
    and "tick (events, \<lambda>k. False) g = Inr g0"
    and "fuel (sat g) \<le> 0"
  shows "dx (sat g0) = 2
         \<and> dx (sat g') = dx (sat g0)
              + (if keys K_RIGHT then 0.05 else if keys K_LEFT then - 0.05 else 0)
         \<and> dy (sat g') = dy (sat g0)
              + (if keys K_RIGHT \<or> keys K_LEFT then 0
                 else if keys K_UP then - 0.05 else if keys K_DOWN then 0.05 else 0)"
proof -
  from assms(1) obtain run p1 sat2 where
    gr: "gravity p1 (locate (sat g) p1) = Inr (p1, sat2)"
    and f: "fold (handle_event (mapping_enabled g)) events (running g, planet g) = (run, p1)"
    and g': "sat g' = Satellite_update keys (snd (fail_conditions sat2))"
    by (rule tick_cases) simp
  from assms(2) obtain run0 p0 sat0 where
    gr0: "gravity p0 (locate (sat g) p0) = Inr (p0, sat0)"
    and f0: "fold (handle_event (mapping_enabled g)) events (running g, planet g) = (run0, p0)"
    and g0: "sat g0 = Satellite_update (\<lambda>k. False) (snd (fail_conditions sat0))"
    by (rule tick_cases) simp
  have same: "sat0 = sat2" using gr gr0 f f0 by simp
  have fu: "fuel sat2 \<le> 0"
    using assms(3) by (simp add: gravity_keeps(1) [OF gr] locate_keeps)
  show ?thesis
    using fu by (simp add: g' g0 same Satellite_update_velocity fail_conditions_def)
qed

theorem thrust_not_fuel_gated_witness:
  "fuel (sat ((game_init 400 70 3)\<lparr>sat := (Satellite_init 400 70 3)\<lparr>fuel := 0\<rparr>\<rparr>)) \<le> 0
   \<and> \<not> isl (tick ([KEYDOWN K_UP], \<lambda>k. k = K_UP)
              ((game_init 400 70 3)\<lparr>sat := (Satellite_init 400 70 3)\<lparr>fuel := 0\<rparr>\<rparr>))
   \<and> \<not> isl (tick ([KEYDOWN K_UP], \<lambda>k. False)
              ((game_init 400 70 3)\<lparr>sat := (Satellite_init 400 70 3)\<lparr>fuel := 0\<rparr>\<rparr>))
   \<and> dx (sat (projr (tick ([KEYDOWN K_UP], \<lambda>k. k = K_UP)
              ((game_init 400 70 3)\<lparr>sat := (Satellite_init 400 70 3)\<lparr>fuel := 0\<rparr>\<rparr>)))) = 2
   \<and> dy (sat (projr (tick ([KEYDOWN K_UP], \<lambda>k. k = K_UP)
              ((game_init 400 70 3)\<lparr>sat := (Satellite_init 400 70 3)\<lparr>fuel := 0\<rparr>\<rparr>))))
       = dy (sat (projr (tick ([KEYDOWN K_UP], \<lambda>k. False)
              ((game_init 400 70 3)\<lparr>sat := (Satellite_init 400 70 3)\<lparr>fuel := 0\<rparr>\<rparr>)))) - 0.05"
proof -
  let ?g = "(game_init 400 70 3)\<lparr>sat := (Satellite_init 400 70 3)\<lparr>fuel := 0\<rparr>\<rparr>"
  obtain g' where e: "tick ([KEYDOWN K_UP], \<lambda>k. k = K_UP) ?g = Inr g'"
    by (simp add: eval_defs handle_event_def)
  obtain g0 where e0: "tick ([KEYDOWN K_UP], \<lambda>k. False) ?g = Inr g0"
    by (simp add: eval_defs handle_event_def)
  have f: "fuel (sat ?g) \<le> 0" by (simp add: Satellite_init_def)
  from thrust_not_fuel_gated [OF e e0 f] f show ?thesis
    by (simp add: e e0)
qed

subsection \<open>C4: the mapping flag\<close>

text \<open>
  C4. After every tick, \<open>mapping_enabled\<close> is true exactly when the eccentricity
  estimate of that tick is below 0.05 and the satellite's distance lies in \<open>[69, 120]\<close>.
  In particular the check answers true for eccentricity 0.04 at distance 100, false for
  eccentricity 0.06 at distance 100, and false for eccentricity 0.04 at distance 65.
\<close>

theorem mapping_enabled_iff:
  assumes "tick (events, keys) g = Inr g'"
  shows "mapping_enabled g'
           = (eccentricity g' < 0.05 \<and> 69 \<le> distance (sat g') \<and> distance (sat g') \<le> 120)
         \<and> snd (mapping_check 0.04 (s\<lparr>distance := 100\<rparr>))
         \<and> \<not> snd (mapping_check 0.06 (s\<lparr>distance := 100\<rparr>))
         \<and> \<not> snd (mapping_check 0.04 (s\<lparr>distance := 65\<rparr>))"
proof -
  from assms obtain s2 where s2: "distance s2 = distance (sat g')"
    "mapping_enabled g' = snd (mapping_check (eccentricity g') (snd (fail_conditions s2)))"
    by (rule tick_fail_check)
  have "mapping_enabled g'
          = (eccentricity g' < 0.05 \<and> 69 \<le> distance (sat g') \<and> distance (sat g') \<le> 120)"
    by (simp add: s2(2) mapping_check_def fail_conditions_keeps s2(1))
  then show ?thesis
    by (simp add: mapping_check_def)
qed

theorem mapping_enabled_iff_witness:
  "\<not> isl (tick ([], \<lambda>k. False) ((game_init 400 220 3)\<lparr>eccentricity := 0.04\<rparr>))
   \<and> eccentricity (projr (tick ([], \<lambda>k. False) ((game_init 400 220 3)\<lparr>eccentricity := 0.04\<rparr>))) = 0.04
   \<and> distance (sat (projr (tick ([], \<lambda>k. False) ((game_init 400 220 3)\<lparr>eccentricity := 0.04\<rparr>)))) = 100
   \<and> mapping_enabled (projr (tick ([], \<lambda>k. False) ((game_init 400 220 3)\<lparr>eccentricity := 0.04\<rparr>)))
   \<and> \<not> mapping_enabled (projr (tick ([], \<lambda>k. False) ((game_init 400 220 3)\<lparr>eccentricity := 0.06\<rparr>)))
   \<and> \<not> mapping_enabled (projr (tick ([], \<lambda>k. False) ((game_init 400 255 3)\<lparr>eccentricity := 0.04\<rparr>)))"
proof -
  obtain g' where e: "tick ([], \<lambda>k. False) ((game_init 400 220 3)\<lparr>eccentricity := 0.04\<rparr>) = Inr g'"
    by (simp add: eval_defs)
  have c: "eccentricity g' = 0.04" using e by (auto simp: eval_defs)
  have d: "distance (sat g') = 100" using tick_distance [OF e] by (simp add: eval_defs)
  have n1: "\<not> mapping_enabled (projr (tick ([], \<lambda>k. False) ((game_init 400 220 3)\<lparr>eccentricity := 0.06\<rparr>)))"
    by (simp add: eval_defs)
  have n2: "\<not> mapping_enabled (projr (tick ([], \<lambda>k. False) ((game_init 400 255 3)\<lparr>eccentricity := 0.04\<rparr>)))"
    by (simp add: eval_defs)
  from mapping_enabled_iff [OF e] c d have m: "mapping_enabled g'" by simp
  have "\<not> isl (tick ([], \<lambda>k. False) ((game_init 400 220 3)\<lparr>eccentricity := 0.04\<rparr>))
   \<and> eccentricity (projr (tick ([], \<lambda>k. False) ((game_init 400 220 3)\<lparr>eccentricity := 0.04\<rparr>))) = 0.04
   \<and> distance (sat (projr (tick ([], \<lambda>k. False) ((game_init 400 220 3)\<lparr>eccentricity := 0.04\<rparr>)))) = 100
   \<and> mapping_enabled (projr (tick ([], \<lambda>k. False) ((game_init 400 220 3)\<lparr>eccentricity := 0.04\<rparr>)))"
    by (simp only: e sum.sel sum.disc c d m simp_thms)
  with n1 n2 show ?thesis by blast
qed

subsection \<open>C5: eccentricity of a sample window\<close>

text \<open>
  C5 says that \<open>calc_eccentricity\<close> returns \<open>(max - min) / (max + min)\<close> for every
  non-empty list and 0 for every single-element list. For the single sample 0 (the
  value a satellite's \<open>distance\<close> is initialised with) \<open>max + min\<close> is 0 and the
  division raises.
\<close>

theorem calc_eccentricity_counterexample:
  "calc_eccentricity [0] = Inl ZeroDivisionError"
  by (simp add: calc_eccentricity_def truediv_def)

text \<open>
  C5, as the code has it: for every non-empty list of samples whose maximum and
  minimum do not add up to 0, \<open>calc_eccentricity\<close> returns
  \<open>(max - min) / (max + min)\<close>; for a single sample \<open>d \<noteq> 0\<close> it returns 0, and for
  \<open>[69, 120]\<close> it returns \<open>(120 - 69) / (120 + 69)\<close>.
\<close>

theorem calc_eccentricity_formula:
  assumes "ds \<noteq> []"
    and "Max (set ds) + Min (set ds) \<noteq> 0"
    and "d \<noteq> 0"
  shows "calc_eccentricity ds
           = Inr ((Max (set ds) - Min (set ds))
                  / (Max (set ds) + Min (set ds)))
         \<and> calc_eccentricity [d] = Inr 0
         \<and> calc_eccentricity [69, 120] = Inr ((120 - 69) / (120 + 69))"
  using assms
  by (simp add: calc_eccentricity_def py_max_Max py_min_Min truediv_def)

theorem calc_eccentricity_formula_witness:
  "[100, 80, 120 :: real] \<noteq> []
   \<and> Max (set [100, 80, 120 :: real]) + Min (set [100, 80, 120 :: real]) \<noteq> 0
   \<and> (250 :: real) \<noteq> 0
   \<and> calc_eccentricity [100, 80, 120] = Inr 0.2
   \<and> calc_eccentricity [250] = Inr 0
   \<and> calc_eccentricity [69, 120] = Inr (51 / 189)"
proof -
  have h1: "[100, 80, 120 :: real] \<noteq> []" by simp
  have h2: "Max (set [100, 80, 120 :: real]) + Min (set [100, 80, 120 :: real]) \<noteq> 0" by simp
  have h3: "(250 :: real) \<noteq> 0" by simp
  from calc_eccentricity_formula [OF h1 h2 h3] h1 h2 h3 show ?thesis by simp
qed

subsection \<open>C6: heading and distance\<close>

text \<open>
  C6 says that the heading lies in \<open>[-180, 180)\<close>. \<open>locate\<close> subtracts 90 from the
  angle in degrees and normalises nothing: a satellite one unit to the left of and one
  unit above the planet's centre (distance \<open>sqrt 2\<close>, positive) gets the heading \<open>-225\<close>.
\<close>

theorem locate_heading_counterexample:
  "0 < distance (locate ((Satellite_init 399 70 3)\<lparr>y := 319\<rparr>) Planet_init)
   \<and> heading (locate ((Satellite_init 399 70 3)\<lparr>y := 319\<rparr>) Planet_init) = - 225
   \<and> \<not> (- 180 \<le> heading (locate ((Satellite_init 399 70 3)\<lparr>y := 319\<rparr>) Planet_init))"
  by (simp add: locate_def Let_def Satellite_init_def Planet_init_def atan2_def arctan_one hypot_def)

text \<open>
  C6, as the code has it: for every pair of positions, the distance \<open>locate\<close> stores is
  the Euclidean norm of the difference vector, the heading is the \<open>atan2\<close> of the
  difference converted to degrees minus 90, and the heading lies in \<open>[-270, 90]\<close>.
\<close>

theorem locate_heading_distance:
  "distance (locate s p) = sqrt ((x s - px p)\<^sup>2 + (y s - py p)\<^sup>2)
   \<and> heading (locate s p) = atan2 (x s - px p) (y s - py p) * 180 / pi - 90
   \<and> - 270 \<le> heading (locate s p) \<and> heading (locate s p) \<le> 90"
proof -
  let ?t = "atan2 (x s - px p) (y s - py p)"
  have pos: "0 < pi" by (rule pi_gt_zero)
  have b: "- pi \<le> ?t" "?t \<le> pi" using atan2_bounds by simp_all
  have "?t * 180 / pi \<le> 180"
    using b(2) pos by (simp add: pos_divide_le_eq)
  moreover have "- 180 \<le> ?t * 180 / pi"
    using b(1) pos by (simp add: pos_le_divide_eq)
  ultimately show ?thesis
    by (simp add: locate_def Let_def hypot_def)
qed

subsection \<open>C7: the inverse-square law\<close>

text \<open>
  C7. For a satellite at distance \<open>d > 0\<close> from the planet, \<open>gravity\<close> succeeds and adds
  to the velocity the unit vector from the satellite to the planet scaled by
  \<open>G * mass_satellite * mass_planet / d\<^sup>2\<close> with \<open>G = 1\<close>; the magnitude of that velocity
  change is the absolute value of the scale factor, and for a second satellite of the
  same mass at twice the distance the magnitude is a quarter of it.
\<close>

theorem gravity_inverse_square:
  assumes "0 < hypot (px p - x s) (py p - y s)"
    and "mass s2 = mass s"
    and "hypot (px p - x s2) (py p - y s2) = 2 * hypot (px p - x s) (py p - y s)"
  shows "let d = hypot (px p - x s) (py p - y s);
             force = 1 * of_int (mass s * pmass p) / d\<^sup>2
         in gravity p s = Inr (p, s\<lparr>dx := dx s + (px p - x s) / d * force,
                                    dy := dy s + (py p - y s) / d * force\<rparr>)
            \<and> (\<exists>s' s2'. gravity p s = Inr (p, s') \<and> gravity p s2 = Inr (p, s2')
                 \<and> hypot (dx s' - dx s) (dy s' - dy s) = \<bar>force\<bar>
                 \<and> hypot (dx s2' - dx s2) (dy s2' - dy s2)
                     = hypot (dx s' - dx s) (dy s' - dy s) / 4)"
proof -
  let ?d = "hypot (px p - x s) (py p - y s)"
  let ?d2 = "hypot (px p - x s2) (py p - y s2)"
  have d: "?d \<noteq> 0" and d2: "?d2 \<noteq> 0" using assms by simp_all
  obtain s' where g1: "gravity p s = Inr (p, s')" using gravity_ok [OF d] by blast
  obtain s2' where g2: "gravity p s2 = Inr (p, s2')" using gravity_ok [OF d2] by blast
  have m1: "hypot (dx s' - dx s) (dy s' - dy s) = \<bar>of_int (mass s * pmass p)\<bar> / ?d\<^sup>2"
    by (rule gravity_force_magnitude [OF d g1])
  have m2: "hypot (dx s2' - dx s2) (dy s2' - dy s2) = \<bar>of_int (mass s2 * pmass p)\<bar> / ?d2\<^sup>2"
    by (rule gravity_force_magnitude [OF d2 g2])
  have q: "hypot (dx s2' - dx s2) (dy s2' - dy s2) = hypot (dx s' - dx s) (dy s' - dy s) / 4"
    unfolding m1 m2 assms(2) assms(3) by (simp add: power_mult_distrib)
  have a: "hypot (dx s' - dx s) (dy s' - dy s) = \<bar>1 * of_int (mass s * pmass p) / ?d\<^sup>2\<bar>"
    unfolding m1 by simp
  show ?thesis
    unfolding Let_def using gravity_ok [OF d] g1 g2 q a by blast
qed

theorem gravity_inverse_square_witness:
  "0 < hypot (px Planet_init - x (Satellite_init 400 220 3))
             (py Planet_init - y (Satellite_init 400 220 3))
   \<and> mass (Satellite_init 400 120 (- 3)) = mass (Satellite_init 400 220 3)
   \<and> hypot (px Planet_init - x (Satellite_init 400 120 (- 3)))
           (py Planet_init - y (Satellite_init 400 120 (- 3)))
       = 2 * hypot (px Planet_init - x (Satellite_init 400 220 3))
                   (py Planet_init - y (Satellite_init 400 220 3))
   \<and> gravity Planet_init (Satellite_init 400 220 3)
       = Inr (Planet_init, (Satellite_init 400 220 3)\<lparr>dx := 3, dy := 0.2\<rparr>)
   \<and> gravity Planet_init (Satellite_init 400 120 (- 3))
       = Inr (Planet_init, (Satellite_init 400 120 (- 3))\<lparr>dx := - 3, dy := 0.05\<rparr>)
   \<and> hypot (- 3 - dx (Satellite_init 400 120 (- 3))) (0.05 - dy (Satellite_init 400 120 (- 3)))
       = hypot (3 - dx (Satellite_init 400 220 3)) (0.2 - dy (Satellite_init 400 220 3)) / 4"
proof -
  have h1: "0 < hypot (px Planet_init - x (Satellite_init 400 220 3))
                      (py Planet_init - y (Satellite_init 400 220 3))"
    by (simp add: Planet_init_def Satellite_init_def hypot_0_left)
  have h2: "mass (Satellite_init 400 120 (- 3)) = mass (Satellite_init 400 220 3)"
    by (simp add: Satellite_init_def)
  have h3: "hypot (px Planet_init - x (Satellite_init 400 120 (- 3)))
                  (py Planet_init - y (Satellite_init 400 120 (- 3)))
            = 2 * hypot (px Planet_init - x (Satellite_init 400 220 3))
                        (py Planet_init - y (Satellite_init 400 220 3))"
    by (simp add: Planet_init_def Satellite_init_def hypot_0_left)
  have g1: "gravity Planet_init (Satellite_init 400 220 3)
            = Inr (Planet_init, (Satellite_init 400 220 3)\<lparr>dx := 3, dy := 0.2\<rparr>)"
    by (simp add: eval_defs)
  have g2: "gravity Planet_init (Satellite_init 400 120 (- 3))
            = Inr (Planet_init, (Satellite_init 400 120 (- 3))\<lparr>dx := - 3, dy := 0.05\<rparr>)"
    by (simp add: eval_defs)
  from gravity_inverse_square [OF h1 h2 h3] h1 h2 h3 show ?thesis
    unfolding Let_def g1 g2 by simp
qed

subsection \<open>C8: coinciding positions\<close>

text \<open>
  C8 says that \<open>gravity\<close> guards against a distance of exactly 0, either clamping the
  distance or reporting a defined invariant violation. The function has no such branch:
  with the satellite on the planet's centre the first division, \<^verbatim>\<open>dist_x /= distance\<close>,
  is executed with divisor 0, and what \<open>gravity\<close> returns is that division's own
  \<^verbatim>\<open>ZeroDivisionError\<close>; no clamped distance is used and no velocity is produced.
\<close>

theorem gravity_guard_counterexample:
  "hypot (px Planet_init - x ((Satellite_init 400 70 3)\<lparr>y := 320\<rparr>))
         (py Planet_init - y ((Satellite_init 400 70 3)\<lparr>y := 320\<rparr>)) = 0
   \<and> truediv (px Planet_init - x ((Satellite_init 400 70 3)\<lparr>y := 320\<rparr>))
        (hypot (px Planet_init - x ((Satellite_init 400 70 3)\<lparr>y := 320\<rparr>))
               (py Planet_init - y ((Satellite_init 400 70 3)\<lparr>y := 320\<rparr>)))
       = Inl ZeroDivisionError
   \<and> gravity Planet_init ((Satellite_init 400 70 3)\<lparr>y := 320\<rparr>) = Inl ZeroDivisionError"
  by (simp add: eval_defs)

text \<open>
  C8, as the code has it: \<open>gravity\<close> does not guard the distance. Whenever the satellite's
  position equals the planet's, its first division divides by zero and the call ends in
  \<^verbatim>\<open>ZeroDivisionError\<close>, with no change applied to the satellite.
\<close>

theorem gravity_zero_distance:
  assumes "x s = px p" and "y s = py p"
  shows "gravity p s = Inl ZeroDivisionError"
  by (rule gravity_fail) (simp add: assms hypot_def)

theorem gravity_zero_distance_witness:
  "x ((Satellite_init 400 70 (- 3))\<lparr>y := 320, dy := 1.5\<rparr>) = px Planet_init
   \<and> y ((Satellite_init 400 70 (- 3))\<lparr>y := 320, dy := 1.5\<rparr>) = py Planet_init
   \<and> gravity Planet_init ((Satellite_init 400 70 (- 3))\<lparr>y := 320, dy := 1.5\<rparr>)
       = Inl ZeroDivisionError"
proof -
  have h1: "x ((Satellite_init 400 70 (- 3))\<lparr>y := 320, dy := 1.5\<rparr>) = px Planet_init"
    and h2: "y ((Satellite_init 400 70 (- 3))\<lparr>y := 320, dy := 1.5\<rparr>) = py Planet_init"
    by (simp_all add: Satellite_init_def Planet_init_def)
  from gravity_zero_distance [OF h1 h2] h1 h2 show ?thesis by simp
qed

subsection \<open>C9: which distance enters the sample window\<close>

text \<open>
  C9 says that the sample appended in a tick is the distance computed in that tick.
  The loop appends \<open>sat.distance\<close> at the top of its body and calls \<open>locate\<close> later.
  In the second tick of a game started at \<open>(400, 70)\<close> with \<open>dx = 3\<close> the sample appended
  is 250, the distance computed in the first tick, while the distance computed in the
  second tick is \<open>hypot 3 (-249.968)\<close>, which is smaller.
\<close>

theorem sample_order_counterexample:
  "\<not> isl (main_loop [([], \<lambda>k. False), ([], \<lambda>k. False)] (game_init 400 70 3))
   \<and> last (dist_list (projr (main_loop [([], \<lambda>k. False), ([], \<lambda>k. False)] (game_init 400 70 3))))
       = 250
   \<and> distance (sat (projr (main_loop [([], \<lambda>k. False), ([], \<lambda>k. False)] (game_init 400 70 3))))
       = hypot 3 (- 249.968)
   \<and> hypot 3 (- 249.968) < 250"
proof -
  let ?g1 = "\<lparr>sat = \<lparr>image = Image_sat 90, x = 403, y = 70.032, dx = 3, dy = 0.032,
                       heading = 90, fuel = 100, mass = 1, distance = 250\<rparr>,
               planet = Planet_init\<lparr>angle := 0.01 * 180 / pi\<rparr>,
               dist_list = [0], eccentricity = 1, tick_count = 1,
               mapping_enabled = False, running = True, labels = [],
               telemetry = (3, 0.032, 250, 100, 1)\<rparr>"
  have e1: "tick ([], \<lambda>k. False) (game_init 400 70 3) = Inr ?g1"
    by (simp add: eval_defs)
  have "hypot (x (sat ?g1) - px (planet ?g1)) (y (sat ?g1) - py (planet ?g1)) \<noteq> 0"
    by (simp add: hypot_eq_0_iff Planet_init_def)
  moreover have "(tick_count ?g1 + 1) mod 150 \<noteq> 0" by simp
  ultimately obtain g2 where e2: "tick ([], \<lambda>k. False) ?g1 = Inr g2"
    using tick_total by blast
  from tick_appends [OF e2] have w: "last (dist_list g2) = 250"
    by simp
  from tick_distance [OF e2] have d: "distance (sat g2) = hypot 3 (- 249.968)"
    by (simp add: Planet_init_def)
  have "sqrt (3\<^sup>2 + (- 249.968)\<^sup>2) < sqrt (250\<^sup>2)"
    by (rule real_sqrt_less_mono) (simp add: power2_eq_square)
  then have lt: "hypot 3 (- 249.968) < 250"
    by (simp add: hypot_def)
  have r0: "running (game_init 400 70 3)" by (simp add: game_init_def)
  have r1: "running ?g1" by simp
  have "main_loop [([], \<lambda>k. False), ([], \<lambda>k. False)] (game_init 400 70 3) = Inr g2"
    by (simp only: main_loop.simps r0 r1 if_True e1 e2 sum.case)
  with w d lt show ?thesis by simp
qed

text \<open>
  C9, as the code has it: in every tick the sample is appended before heading and
  distance are recomputed, so in a tick that follows another tick the value appended is
  the distance that \<open>locate\<close> computed in the preceding tick, and the distance computed
  in the tick itself is only stored in the satellite. On every 150th tick the window,
  with that sample, is consumed by \<open>calc_eccentricity\<close> and cleared; on the other ticks
  the eccentricity is kept.
\<close>

theorem sample_is_previous_distance:
  assumes "tick (events1, keys1) g = Inr g1"
    and "tick (events2, keys2) g1 = Inr g2"
  shows "(if (tick_count g1 + 1) mod 150 = 0
          then dist_list g2 = []
               \<and> calc_eccentricity (dist_list g1 @ [distance (locate (sat g) (planet g))])
                   = Inr (eccentricity g2)
          else dist_list g2 = dist_list g1 @ [distance (locate (sat g) (planet g))]
               \<and> eccentricity g2 = eccentricity g1)
         \<and> distance (sat g2) = distance (locate (sat g1) (planet g1))"
proof -
  have prev: "distance (sat g1) = distance (locate (sat g) (planet g))"
    by (rule tick_stores_locate [OF assms(1)])
  show ?thesis
    using tick_appends [OF assms(2)] tick_stores_locate [OF assms(2)]
    unfolding prev by (simp split: if_splits)
qed

theorem sample_is_previous_distance_witness:
  "\<not> isl (tick ([], \<lambda>k. False) (game_init 400 170 (- 3)))
   \<and> \<not> isl (tick ([KEYDOWN K_SPACE], \<lambda>k. k = K_DOWN)
              (projr (tick ([], \<lambda>k. False) (game_init 400 170 (- 3)))))
   \<and> distance (locate (sat (game_init 400 170 (- 3))) (planet (game_init 400 170 (- 3)))) = 150
   \<and> last (dist_list (projr (tick ([KEYDOWN K_SPACE], \<lambda>k. k = K_DOWN)
              (projr (tick ([], \<lambda>k. False) (game_init 400 170 (- 3))))))) = 150"
proof -
  obtain g1 where e1: "tick ([], \<lambda>k. False) (game_init 400 170 (- 3)) = Inr g1"
    by (simp add: eval_defs)
  have g1: "x (sat g1) = 397" "px (planet g1) = 400" "tick_count g1 = 1"
    using e1 by (auto simp: eval_defs)
  have "hypot (x (sat g1) - px (planet g1)) (y (sat g1) - py (planet g1)) \<noteq> 0"
    by (simp add: hypot_eq_0_iff g1)
  moreover have "(tick_count g1 + 1) mod 150 \<noteq> 0" by (simp add: g1)
  ultimately obtain g2 where e2: "tick ([KEYDOWN K_SPACE], \<lambda>k. k = K_DOWN) g1 = Inr g2"
    using tick_total by blast
  have l: "distance (locate (sat (game_init 400 170 (- 3))) (planet (game_init 400 170 (- 3)))) = 150"
    by (simp add: eval_defs)
  from sample_is_previous_distance [OF e1 e2]
  have "last (dist_list g2) = 150"
    by (simp add: g1 l)
  with l show ?thesis
    by (simp only: e1 e2 sum.sel sum.disc simp_thms)
qed

subsection \<open>C10: what gravity leaves alone\<close>

text \<open>
  C10. For a satellite at distance \<open>d > 0\<close> from the planet, \<open>gravity\<close> succeeds, returns
  the planet as it was, and returns the satellite with at most \<open>dx\<close> and \<open>dy\<close> changed:
  position, fuel, heading, distance, mass and image are those of the argument.
\<close>

theorem gravity_frame:
  assumes "0 < hypot (px p - x s) (py p - y s)"
  shows "\<exists>p' s'. gravity p s = Inr (p', s') \<and> p' = p \<and> s' = s\<lparr>dx := dx s', dy := dy s'\<rparr>
           \<and> x s' = x s \<and> y s' = y s \<and> fuel s' = fuel s \<and> heading s' = heading s
           \<and> distance s' = distance s \<and> mass s' = mass s \<and> image s' = image s"
proof -
  have d: "hypot (px p - x s) (py p - y s) \<noteq> 0" using assms by simp
  show ?thesis
    unfolding gravity_ok [OF d] by simp
qed

theorem gravity_frame_witness:
  "0 < hypot (px Planet_init - x (Satellite_init 320 320 3))
             (py Planet_init - y (Satellite_init 320 320 3))
   \<and> gravity Planet_init (Satellite_init 320 320 3)
       = Inr (Planet_init, (Satellite_init 320 320 3)\<lparr>dx := 3.3125\<rparr>)"
proof -
  have h: "0 < hypot (px Planet_init - x (Satellite_init 320 320 3))
                     (py Planet_init - y (Satellite_init 320 320 3))"
    by (simp add: Planet_init_def Satellite_init_def hypot_0_right)
  have g: "gravity Planet_init (Satellite_init 320 320 3)
           = Inr (Planet_init, (Satellite_init 320 320 3)\<lparr>dx := 3.3125\<rparr>)"
    by (simp add: eval_defs)
  from gravity_frame [OF h] h show ?thesis
    unfolding g by simp
qed

end
